theory Spec2Isabelle
  imports Complex_Main "HOL-Library.Word"
begin

section \<open>Python values\<close>

text \<open>
  The receipt parser of \<^verbatim>\<open>simple_receipt_parser.py\<close> is dynamically typed: what the
  inference service answers is decoded by \<^verbatim>\<open>json.loads\<close> and handed on unchecked, so a
  value that the code calls \<^verbatim>\<open>extracted_text\<close> or \<^verbatim>\<open>parsed_data\<close> may be any JSON
  value. The model therefore works on a datatype of Python values as \<^verbatim>\<open>json.loads\<close>
  produces them. A \<^verbatim>\<open>dict\<close> is an association list (JSON keys are strings). A
  \<^verbatim>\<open>str\<close> is a \<^typ>\<open>string\<close> whose elements stand for one character each; the
  model covers the characters U+0000 to U+00FF. Of a \<^verbatim>\<open>float\<close> only whether it is
  zero is ever observed.
\<close>

datatype pyfloat = Finite rat | PosInf | NegInf | NaN

datatype pyval =
    PyNone
  | PyBool bool
  | PyInt int
  | PyFloat pyfloat
  | PyStr string
  | PyList "pyval list"
  | PyDict "(string \<times> pyval) list"

text \<open>
  Exceptions are values. The first five are raised by the interpreter and by
  \<^verbatim>\<open>json.loads\<close>; \<open>LibraryError\<close> stands for whatever a library call (PyMuPDF,
  boto3) raises, tagged by a name.
\<close>

datatype exn =
    TypeError
  | KeyError
  | IndexError
  | AttributeError
  | JSONDecodeError
  | LibraryError string

type_synonym byte = "8 word"

subsection \<open>Truth value, membership, subscription, length\<close>

text \<open>\<^verbatim>\<open>not v\<close> is \<open>\<not> truthy v\<close>.\<close>

fun truthy :: "pyval \<Rightarrow> bool" where
  "truthy PyNone = False"
| "truthy (PyBool b) = b"
| "truthy (PyInt i) = (i \<noteq> 0)"
| "truthy (PyFloat f) = (f \<noteq> Finite 0)"
| "truthy (PyStr s) = (s \<noteq> [])"
| "truthy (PyList xs) = (xs \<noteq> [])"
| "truthy (PyDict kvs) = (kvs \<noteq> [])"

definition startswith :: "string \<Rightarrow> string \<Rightarrow> bool" where
  "startswith s p = (take (length p) s = p)"

definition endswith :: "string \<Rightarrow> string \<Rightarrow> bool" where
  "endswith s p = (length p \<le> length s \<and> drop (length s - length p) s = p)"

text \<open>\<^verbatim>\<open>p in s\<close> on two strings: \<open>p\<close> occurs in \<open>s\<close>.\<close>

fun is_substring :: "string \<Rightarrow> string \<Rightarrow> bool" where
  "is_substring p [] = (p = [])"
| "is_substring p (c # cs) = (startswith (c # cs) p \<or> is_substring p cs)"

text \<open>
  \<^verbatim>\<open>k in v\<close> for a string \<open>k\<close>: key of a dict, element of a list, substring of a
  string; any other operand is not iterable.
\<close>

fun py_contains :: "string \<Rightarrow> pyval \<Rightarrow> exn + bool" where
  "py_contains k (PyDict kvs) = Inr (k \<in> set (map fst kvs))"
| "py_contains k (PyList xs) = Inr (PyStr k \<in> set xs)"
| "py_contains k (PyStr s) = Inr (is_substring k s)"
| "py_contains k v = Inl TypeError"

text \<open>\<^verbatim>\<open>v[k]\<close> for a string \<open>k\<close>: only a dict can be subscripted by a string.\<close>

fun py_getitem :: "pyval \<Rightarrow> string \<Rightarrow> exn + pyval" where
  "py_getitem (PyDict kvs) k = (case map_of kvs k of None \<Rightarrow> Inl KeyError | Some x \<Rightarrow> Inr x)"
| "py_getitem v k = Inl TypeError"

text \<open>
  \<^verbatim>\<open>v[0]\<close>: the first element of a list, the first character of a string; a dict
  decoded from JSON has no key \<open>0\<close>.
\<close>

fun py_getitem0 :: "pyval \<Rightarrow> exn + pyval" where
  "py_getitem0 (PyList []) = Inl IndexError"
| "py_getitem0 (PyList (x # xs)) = Inr x"
| "py_getitem0 (PyStr []) = Inl IndexError"
| "py_getitem0 (PyStr (c # cs)) = Inr (PyStr [c])"
| "py_getitem0 (PyDict kvs) = Inl KeyError"
| "py_getitem0 v = Inl TypeError"

fun py_len :: "pyval \<Rightarrow> exn + nat" where
  "py_len (PyStr s) = Inr (length s)"
| "py_len (PyList xs) = Inr (length xs)"
| "py_len (PyDict kvs) = Inr (length kvs)"
| "py_len v = Inl TypeError"

text \<open>\<^verbatim>\<open>v[:n]\<close>: strings and lists can be sliced, nothing else can.\<close>

fun py_slice_to :: "nat \<Rightarrow> pyval \<Rightarrow> exn + pyval" where
  "py_slice_to n (PyStr s) = Inr (PyStr (take n s))"
| "py_slice_to n (PyList xs) = Inr (PyList (take n xs))"
| "py_slice_to n v = Inl TypeError"

text \<open>\<^verbatim>\<open>v + t\<close> for a string \<open>t\<close>.\<close>

fun py_add_str :: "pyval \<Rightarrow> string \<Rightarrow> exn + pyval" where
  "py_add_str (PyStr s) t = Inr (PyStr (s @ t))"
| "py_add_str v t = Inl TypeError"

subsection \<open>String methods\<close>

text \<open>\<^verbatim>\<open>str.lower\<close> on the characters below U+0100.\<close>

definition lower_char :: "char \<Rightarrow> char" where
  "lower_char c =
     (let n = (of_char c :: nat)
      in if (65 \<le> n \<and> n \<le> 90) \<or> (192 \<le> n \<and> n \<le> 222 \<and> n \<noteq> 215)
         then char_of (n + 32) else c)"

definition lower :: "string \<Rightarrow> string" where
  "lower s = map lower_char s"

text \<open>\<^verbatim>\<open>str.isspace\<close> on the characters below U+0100, which \<^verbatim>\<open>str.strip\<close> removes.\<close>

definition is_space :: "char \<Rightarrow> bool" where
  "is_space c =
     (let n = (of_char c :: nat)
      in (9 \<le> n \<and> n \<le> 13) \<or> (28 \<le> n \<and> n \<le> 32) \<or> n = 133 \<or> n = 160)"

definition strip :: "string \<Rightarrow> string" where
  "strip s = rev (dropWhile is_space (rev (dropWhile is_space s)))"

text \<open>\<^verbatim>\<open>s.split('/')[-1]\<close>: what follows the last slash.\<close>

definition last_segment :: "string \<Rightarrow> string" where
  "last_segment s = rev (takeWhile (\<lambda>c. c \<noteq> CHR ''/'') (rev s))"

section \<open>The collaborators of the parser\<close>

text \<open>
  What the parser calls and does not define is a parameter of the model:
  \<^item> \<open>pdf_page_texts\<close>: PyMuPDF on the bytes of a document, the text layer of every
    page in page order, or the exception that opening or reading raised;
  \<^item> \<open>b64encode\<close>: \<^verbatim>\<open>base64.b64encode(...).decode('utf-8')\<close>;
  \<^item> \<open>invoke_model\<close>: one request to the inference endpoint with the request body
    given, and \<^verbatim>\<open>json.loads\<close> of the body of the response. It may raise, and it may
    answer differently from call to call: it reads and changes a state of the outside
    world of type \<open>'w\<close>;
  \<^item> \<open>json_loads\<close>: \<^verbatim>\<open>json.loads\<close> on the reply of the structuring model;
  \<^item> \<open>py_str\<close>: \<^verbatim>\<open>str(v)\<close>, as an f-string formats a value that is not a string;
  \<^item> \<open>exn_str\<close>: \<^verbatim>\<open>str(e)\<close> of an exception.
  Logging is not modelled.
\<close>

record 'w env =
  pdf_page_texts :: "byte list \<Rightarrow> exn + string list"
  b64encode :: "byte list \<Rightarrow> string"
  invoke_model :: "pyval \<Rightarrow> 'w \<Rightarrow> (exn + pyval) \<times> 'w"
  json_loads :: "string \<Rightarrow> exn + pyval"
  py_str :: "pyval \<Rightarrow> string"
  exn_str :: "exn \<Rightarrow> string"

text \<open>
  The state threaded through the parser: the outside world and the request bodies sent
  to the inference endpoint so far, oldest first.
\<close>

record 'w state =
  world :: 'w
  requests :: "pyval list"

definition call_model :: "'w env \<Rightarrow> pyval \<Rightarrow> 'w state \<Rightarrow> (exn + pyval) \<times> 'w state" where
  "call_model env request_body st =
     (case invoke_model env request_body (world st) of
        (response, w) \<Rightarrow> (response, \<lparr>world = w, requests = requests st @ [request_body]\<rparr>))"

section \<open>The prompts\<close>

text \<open>
  The instruction texts of the two requests, as the source has them, but for the two
  arrows U+2192 of the structuring prompt, written \<open>->\<close> here.
\<close>

definition vision_prompt :: string where
  \<open>vision_prompt =
     ''Analyze this receipt/invoice image and extract all visible text and information. \<newline>'' @
     ''            Focus on:\<newline>'' @
     ''            - Product/item names\<newline>'' @
     ''            - Prices and amounts\<newline>'' @
     ''            - Dates\<newline>'' @
     ''            - Store/vendor information\<newline>'' @
     ''            - Model numbers or serial numbers\<newline>'' @
     ''            - Warranty information\<newline>'' @
     ''            \<newline>'' @
     ''            Provide all extracted text clearly formatted.''\<close>

definition structuring_prompt_head :: string where
  \<open>structuring_prompt_head =
     ''You are an expert at analyzing receipts and invoices to extract product information. Analyze this text and extract the following information in JSON format:\<newline>'' @
     ''\<newline>'' @
     ''REQUIRED FIELDS:\<newline>'' @
     ''- item_name: The main product/item name (exactly as written)\<newline>'' @
     ''- price: The total amount paid (just the number, no currency symbols)\<newline>'' @
     ''- date: The purchase/invoice date (convert to DD.MM.YYYY format)\<newline>'' @
     ''- vendor: The store/company/brand name\<newline>'' @
     ''- model_number: Product model, SKU, or part number (null if not found)\<newline>'' @
     ''- description: Brief product description\<newline>'' @
     ''- category: Product category (see categories below)\<newline>'' @
     ''\<newline>'' @
     ''CATEGORY DETECTION RULES:\<newline>'' @
     ''Analyze the item name, vendor, and product details to determine the most appropriate category:\<newline>'' @
     ''\<newline>'' @
     ''"Electronics" - for: phones, computers, tablets, headphones, earbuds, speakers, cameras, gaming devices, smart watches, chargers, cables, TV, monitors, keyboards, mice, electronic accessories\<newline>'' @
     ''Examples: iPhone, AirPods, MacBook, Samsung Galaxy, PlayStation, Xbox, Apple Watch, wireless charger\<newline>'' @
     ''\<newline>'' @
     ''"Home Appliances" - for: kitchen appliances, washing machines, refrigerators, microwaves, air conditioners, vacuum cleaners, small home devices\<newline>'' @
     ''Examples: coffee maker, blender, dishwasher, iron, hair dryer, toaster\<newline>'' @
     ''\<newline>'' @
     ''"Vehicles" - for: cars, motorcycles, bicycles, car parts, automotive accessories\<newline>'' @
     ''Examples: Toyota Camry, Honda bike, car tires, brake pads\<newline>'' @
     ''\<newline>'' @
     ''"Furniture" - for: chairs, tables, beds, sofas, storage furniture, office furniture\<newline>'' @
     ''Examples: dining table, office chair, bookshelf, mattress\<newline>'' @
     ''\<newline>'' @
     ''"Tools & Equipment" - for: power tools, hand tools, machinery, construction equipment, workshop items\<newline>'' @
     ''Examples: drill, hammer, saw, toolbox, generator\<newline>'' @
     ''\<newline>'' @
     ''"Jewelry" - for: rings, necklaces, watches (non-smart), precious metals, gems\<newline>'' @
     ''Examples: gold ring, diamond necklace, luxury watch\<newline>'' @
     ''\<newline>'' @
     ''"Art & Collectibles" - for: paintings, sculptures, collectible items, antiques, art supplies\<newline>'' @
     ''Examples: artwork, vintage items, collectible cards\<newline>'' @
     ''\<newline>'' @
     ''"Sports & Recreation" - for: sports equipment, gym gear, outdoor gear, games, recreational items\<newline>'' @
     ''Examples: tennis racket, dumbbells, camping gear, board games\<newline>'' @
     ''\<newline>'' @
     ''"Other" - for items that don'' @ [CHR 0x27] @ ''t fit the above categories\<newline>'' @
     ''\<newline>'' @
     ''IMPORTANT: \<newline>'' @
     ''- Look at product names like "AirPods", "iPhone", "MacBook" -> clearly "Electronics"\<newline>'' @
     ''- Look at vendor names like "Apple", "Samsung", "Sony" -> likely "Electronics" \<newline>'' @
     ''- Be intelligent about categorization based on product context\<newline>'' @
     ''- Always choose the most specific and appropriate category\<newline>'' @
     ''\<newline>'' @
     ''Text to analyze:\<newline>''\<close>

definition structuring_prompt_tail :: string where
  \<open>structuring_prompt_tail =
     ''\<newline>'' @
     ''\<newline>'' @
     ''Return ONLY valid JSON format with all required fields. No explanations or extra text.''\<close>

section \<open>The parser\<close>

subsection \<open>The fallback record and the result envelope\<close>

definition create_fallback_response :: pyval where
  "create_fallback_response =
     PyDict
      [(''item_name'', PyStr ''Unable to extract''),
       (''price'', PyInt 0),
       (''date'', PyStr ''''),
       (''vendor'', PyStr ''Unable to extract''),
       (''warranty_period'', PyNone),
       (''model_number'', PyNone),
       (''description'', PyStr ''Manual entry required''),
       (''category'', PyStr ''Other'')]"

text \<open>
  The dict that \<^verbatim>\<open>parse_receipt\<close> returns has the key \<^verbatim>\<open>success\<close>, the key
  \<^verbatim>\<open>data\<close>, and one of \<^verbatim>\<open>error\<close> and \<^verbatim>\<open>extracted_text\<close>; an absent key is
  \<open>None\<close> here.
\<close>

record parse_result =
  success :: bool
  error :: "string option"
  extracted_text :: "pyval option"
  data :: pyval

subsection \<open>Reading the response of the model\<close>

text \<open>
  \<^verbatim>\<open>'output' in response_body and 'message' in response_body['output']\<close>: the test
  of both extraction and structuring. The right operand is evaluated only if the left
  one holds, and each of the three steps may raise.
\<close>

definition has_message :: "pyval \<Rightarrow> exn + bool" where
  "has_message response_body =
     (case py_contains ''output'' response_body of
        Inl e \<Rightarrow> Inl e
      | Inr False \<Rightarrow> Inr False
      | Inr True \<Rightarrow>
          (case py_getitem response_body ''output'' of
             Inl e \<Rightarrow> Inl e
           | Inr output \<Rightarrow> py_contains ''message'' output))"

text \<open>\<^verbatim>\<open>response_body['output']['message']['content'][0]['text']\<close>\<close>

definition message_text :: "pyval \<Rightarrow> exn + pyval" where
  "message_text response_body =
     (case py_getitem response_body ''output'' of
        Inl e \<Rightarrow> Inl e
      | Inr output \<Rightarrow>
     (case py_getitem output ''message'' of
        Inl e \<Rightarrow> Inl e
      | Inr message \<Rightarrow>
     (case py_getitem message ''content'' of
        Inl e \<Rightarrow> Inl e
      | Inr content \<Rightarrow>
     (case py_getitem0 content of
        Inl e \<Rightarrow> Inl e
      | Inr segment \<Rightarrow> py_getitem segment ''text''))))"

subsection \<open>Text extraction\<close>

text \<open>
  \<^verbatim>\<open>extract_text_from_pdf\<close>: the texts of the pages, concatenated in page order by
  the loop; the empty string when PyMuPDF raises.
\<close>

definition extract_text_from_pdf :: "'w env \<Rightarrow> byte list \<Rightarrow> string" where
  "extract_text_from_pdf env pdf_bytes =
     (case pdf_page_texts env pdf_bytes of
        Inl e \<Rightarrow> ''''
      | Inr pages \<Rightarrow> foldl (\<lambda>text page. text @ page) '''' pages)"

definition image_format :: "string \<Rightarrow> string" where
  "image_format mime_type =
     (if CHR ''/'' \<in> set mime_type then last_segment mime_type else ''png'')"

definition inference_config :: "int \<Rightarrow> pyval" where
  "inference_config max_tokens =
     PyDict [(''maxTokens'', PyInt max_tokens), (''temperature'', PyFloat (Finite (1 / 10)))]"

definition vision_request :: "'w env \<Rightarrow> byte list \<Rightarrow> string \<Rightarrow> pyval" where
  "vision_request env image_bytes mime_type =
     PyDict
      [(''messages'',
        PyList
         [PyDict
           [(''role'', PyStr ''user''),
            (''content'',
             PyList
              [PyDict [(''text'', PyStr vision_prompt)],
               PyDict
                [(''image'',
                  PyDict
                   [(''format'', PyStr (image_format mime_type)),
                    (''source'', PyDict [(''bytes'', PyStr (b64encode env image_bytes))])])]])]]),
       (''inferenceConfig'', inference_config 4000)]"

text \<open>
  Lines 107 to 118 of \<^verbatim>\<open>extract_text_from_image\<close>, inside its \<^verbatim>\<open>try\<close>: the first
  text segment of the message when the response has the shape tested, the sentinel
  when the test is false.
\<close>

definition image_reply_text :: "exn + pyval \<Rightarrow> exn + pyval" where
  "image_reply_text response =
     (case response of
        Inl e \<Rightarrow> Inl e
      | Inr response_body \<Rightarrow>
          (case has_message response_body of
             Inl e \<Rightarrow> Inl e
           | Inr True \<Rightarrow> message_text response_body
           | Inr False \<Rightarrow> Inr (PyStr ''Could not extract text from image'')))"

text \<open>
  \<^verbatim>\<open>extract_text_from_image\<close>: one request to the model; any exception gives the
  empty string. What is returned is whatever JSON value the response holds at
  \<^verbatim>\<open>text\<close>, a string or not.
\<close>

definition extract_text_from_image ::
  "'w env \<Rightarrow> byte list \<Rightarrow> string \<Rightarrow> 'w state \<Rightarrow> pyval \<times> 'w state" where
  "extract_text_from_image env image_bytes mime_type st =
     (case call_model env (vision_request env image_bytes mime_type) st of
        (response, st') \<Rightarrow>
          (case image_reply_text response of
             Inl e \<Rightarrow> (PyStr '''', st')
           | Inr extracted \<Rightarrow> (extracted, st')))"

subsection \<open>Structuring\<close>

text \<open>
  The f-string of \<^verbatim>\<open>parse_receipt_text\<close>: the head of the instruction, then
  \<^verbatim>\<open>extracted_text[:3000]\<close> formatted, then the tail. Slicing raises on a value that
  is neither a string nor a list.
\<close>

definition structuring_prompt :: "'w env \<Rightarrow> pyval \<Rightarrow> exn + string" where
  "structuring_prompt env text =
     (case py_slice_to 3000 text of
        Inl e \<Rightarrow> Inl e
      | Inr (PyStr s) \<Rightarrow> Inr (structuring_prompt_head @ s @ structuring_prompt_tail)
      | Inr v \<Rightarrow> Inr (structuring_prompt_head @ py_str env v @ structuring_prompt_tail))"

definition structuring_request :: "string \<Rightarrow> pyval" where
  "structuring_request prompt =
     PyDict
      [(''messages'',
        PyList
         [PyDict [(''role'', PyStr ''user''), (''content'', PyList [PyDict [(''text'', PyStr prompt)]])]]),
       (''inferenceConfig'', inference_config 1000)]"

text \<open>
  Lines 212 to 217: strip, drop a leading \<^verbatim>\<open>```json\<close>, drop a trailing \<^verbatim>\<open>```\<close>, strip
  again. \<^verbatim>\<open>strip\<close> is a method of strings only.
\<close>

definition clean_response :: "pyval \<Rightarrow> exn + string" where
  \<open>clean_response ai_response =
     (case ai_response of
        PyStr s \<Rightarrow>
          (let c0 = strip s;
               c1 = (if startswith c0 ''```json'' then drop 7 c0 else c0);
               c2 = (if endswith c1 ''```'' then take (length c1 - 3) c1 else c1)
           in Inr (strip c2))
      | _ \<Rightarrow> Inl AttributeError)\<close>

text \<open>
  The inner \<^verbatim>\<open>try\<close> of \<^verbatim>\<open>parse_receipt_text\<close> (lines 210 to 226): it handles
  \<^verbatim>\<open>JSONDecodeError\<close> alone by the fallback record, and lets any other exception
  through. What \<^verbatim>\<open>json.loads\<close> decodes is returned as it is.
\<close>

definition decode_reply :: "'w env \<Rightarrow> pyval \<Rightarrow> exn + pyval" where
  "decode_reply env ai_response =
     (case clean_response ai_response of
        Inl e \<Rightarrow> Inl e
      | Inr clean \<Rightarrow>
          (case json_loads env clean of
             Inl JSONDecodeError \<Rightarrow> Inr create_fallback_response
           | Inl e \<Rightarrow> Inl e
           | Inr parsed_data \<Rightarrow> Inr parsed_data))"

text \<open>Lines 199 to 226: from the response of the model to the value returned.\<close>

definition structured_reply :: "'w env \<Rightarrow> exn + pyval \<Rightarrow> exn + pyval" where
  "structured_reply env response =
     (case response of
        Inl e \<Rightarrow> Inl e
      | Inr response_body \<Rightarrow>
          (case has_message response_body of
             Inl e \<Rightarrow> Inl e
           | Inr False \<Rightarrow> Inr create_fallback_response
           | Inr True \<Rightarrow>
               (case message_text response_body of
                  Inl e \<Rightarrow> Inl e
                | Inr ai_response \<Rightarrow> decode_reply env ai_response)))"

text \<open>The body of the outer \<^verbatim>\<open>try\<close> of \<^verbatim>\<open>parse_receipt_text\<close>.\<close>

definition parse_receipt_text_try ::
  "'w env \<Rightarrow> pyval \<Rightarrow> 'w state \<Rightarrow> (exn + pyval) \<times> 'w state" where
  "parse_receipt_text_try env text st =
     (case structuring_prompt env text of
        Inl e \<Rightarrow> (Inl e, st)
      | Inr prompt \<Rightarrow>
          (case call_model env (structuring_request prompt) st of
             (response, st') \<Rightarrow> (structured_reply env response, st')))"

text \<open>\<^verbatim>\<open>parse_receipt_text\<close>: every exception of the body gives the fallback record.\<close>

definition parse_receipt_text :: "'w env \<Rightarrow> pyval \<Rightarrow> 'w state \<Rightarrow> pyval \<times> 'w state" where
  "parse_receipt_text env text st =
     (case parse_receipt_text_try env text st of
        (Inl e, st') \<Rightarrow> (create_fallback_response, st')
      | (Inr structured, st') \<Rightarrow> (structured, st'))"

subsection \<open>The orchestrator\<close>

definition is_pdf :: "string \<Rightarrow> string \<Rightarrow> bool" where
  "is_pdf filename content_type =
     (content_type = ''application/pdf'' \<or> endswith (lower filename) ''.pdf'')"

definition image_extensions :: "string list" where
  "image_extensions = [''.png'', ''.jpg'', ''.jpeg'', ''.gif'', ''.bmp'']"

definition is_image :: "string \<Rightarrow> string \<Rightarrow> bool" where
  "is_image filename content_type =
     (startswith content_type ''image/''
      \<or> list_ex (endswith (lower filename)) image_extensions)"

text \<open>
  Lines 252 to 266 of \<^verbatim>\<open>parse_receipt\<close>, the choice of the extraction: \<open>None\<close> when
  neither branch applies, else the text extracted and the state after it.
\<close>

definition extract_text ::
  "'w env \<Rightarrow> byte list \<Rightarrow> string \<Rightarrow> string \<Rightarrow> 'w state \<Rightarrow> (pyval \<times> 'w state) option" where
  "extract_text env file_content filename content_type st =
     (if is_pdf filename content_type then
        Some (PyStr (extract_text_from_pdf env file_content), st)
      else if is_image filename content_type then
        Some (extract_text_from_image env file_content content_type st)
      else None)"

text \<open>
  Line 281: \<^verbatim>\<open>extracted_text[:500] + "..." if len(extracted_text) > 500 else
  extracted_text\<close>.
\<close>

definition text_preview :: "pyval \<Rightarrow> exn + pyval" where
  "text_preview text =
     (case py_len text of
        Inl e \<Rightarrow> Inl e
      | Inr n \<Rightarrow>
          if n > 500 then
            (case py_slice_to 500 text of
               Inl e \<Rightarrow> Inl e
             | Inr head \<Rightarrow> py_add_str head ''...'')
          else Inr text)"

definition unsupported_result :: "string \<Rightarrow> parse_result" where
  "unsupported_result content_type =
     \<lparr>success = False, error = Some (''Unsupported file type: '' @ content_type),
      extracted_text = None, data = create_fallback_response\<rparr>"

definition no_text_result :: parse_result where
  "no_text_result =
     \<lparr>success = False, error = Some ''No text could be extracted from the file'',
      extracted_text = None, data = create_fallback_response\<rparr>"

text \<open>The body of the \<^verbatim>\<open>try\<close> of \<^verbatim>\<open>parse_receipt\<close>.\<close>

definition parse_receipt_try ::
  "'w env \<Rightarrow> byte list \<Rightarrow> string \<Rightarrow> string \<Rightarrow> 'w state \<Rightarrow> (exn + parse_result) \<times> 'w state" where
  "parse_receipt_try env file_content filename content_type st =
     (case extract_text env file_content filename content_type st of
        None \<Rightarrow> (Inr (unsupported_result content_type), st)
      | Some (text, st1) \<Rightarrow>
          if \<not> truthy text then (Inr no_text_result, st1)
          else
            (case parse_receipt_text env text st1 of
               (structured_data, st2) \<Rightarrow>
                 (case text_preview text of
                    Inl e \<Rightarrow> (Inl e, st2)
                  | Inr preview \<Rightarrow>
                      (Inr \<lparr>success = True, error = None,
                            extracted_text = Some preview, data = structured_data\<rparr>, st2))))"

text \<open>
  \<^verbatim>\<open>parse_receipt\<close>: an exception of the body becomes a result with the message of
  the exception and the fallback record.
\<close>

definition parse_receipt ::
  "'w env \<Rightarrow> byte list \<Rightarrow> string \<Rightarrow> string \<Rightarrow> 'w state \<Rightarrow> parse_result \<times> 'w state" where
  "parse_receipt env file_content filename content_type st =
     (case parse_receipt_try env file_content filename content_type st of
        (Inl e, st') \<Rightarrow>
          (\<lparr>success = False, error = Some (exn_str env e),
            extracted_text = None, data = create_fallback_response\<rparr>, st')
      | (Inr result, st') \<Rightarrow> (result, st'))"

section \<open>Vocabulary of the specification\<close>

text \<open>The nine category labels, as the structuring prompt and the specification list them.\<close>

definition categories :: "string list" where
  "categories =
     [''Electronics'', ''Home Appliances'', ''Vehicles'', ''Furniture'', ''Tools & Equipment'',
      ''Jewelry'', ''Art & Collectibles'', ''Sports & Recreation'', ''Other'']"

text \<open>\<open>data.category\<close> is one of the nine labels.\<close>

definition category_enumerated :: "pyval \<Rightarrow> bool" where
  "category_enumerated record =
     (case py_getitem record ''category'' of
        Inr (PyStr c) \<Rightarrow> c \<in> set categories
      | _ \<Rightarrow> False)"



section \<open>Stubs of the collaborators\<close>

text \<open>
  An environment for running the parser on concrete inputs: every document has the
  pages given, the endpoint answers a request by \<open>respond\<close> and counts its calls in
  the world, and the decoder is \<open>decode\<close>. The other components are right on what
  the runs below give them: the three bytes that are encoded, and the one exception
  whose message is read, the type error of \<^verbatim>\<open>len\<close> on an \<^verbatim>\<open>int\<close>.
\<close>

definition int_len_message :: string where
  "int_len_message = ''object of type '' @ [CHR 0x27] @ ''int'' @ [CHR 0x27] @ '' has no len()''"

definition stub_env ::
  "(exn + string list) \<Rightarrow> (pyval \<Rightarrow> exn + pyval) \<Rightarrow> (string \<Rightarrow> exn + pyval) \<Rightarrow> nat env" where
  "stub_env pages respond decode =
     \<lparr>pdf_page_texts = (\<lambda>bs. pages),
      b64encode = (\<lambda>bs. if bs = [0x89, 0x50, 0x4E] then ''iVBO'' else ''''),
      invoke_model = (\<lambda>request w. (respond request, Suc w)),
      json_loads = decode,
      py_str = (\<lambda>v. ''[]''),
      exn_str = (\<lambda>e. case e of LibraryError m \<Rightarrow> m | _ \<Rightarrow> int_len_message)\<rparr>"

text \<open>A response of the shape the parser expects, with the text given.\<close>

definition nova_response :: "pyval \<Rightarrow> pyval" where
  "nova_response text =
     PyDict
      [(''output'',
        PyDict
         [(''message'',
           PyDict [(''role'', PyStr ''assistant''), (''content'', PyList [PyDict [(''text'', text)]])])])]"

definition reject_all :: "string \<Rightarrow> exn + pyval" where
  "reject_all s = Inl JSONDecodeError"

definition initial_state :: "nat state" where
  "initial_state = \<lparr>world = 0, requests = []\<rparr>"

subsection \<open>Inputs and stubs of the examples\<close>

text \<open>
  Each decoder below agrees with \<^verbatim>\<open>json.loads\<close> on the one text it accepts and on
  the texts its run hands to it.
\<close>

definition long_text :: string where
  "long_text = replicate 501 (CHR ''x'')"

definition receipt_text :: string where
  "receipt_text = ''STORE A / Widget / $19.99 / 2024-01-05''"

definition gadget_reply :: string where
  \<open>gadget_reply = ''{"category": "Gadgets"}''\<close>

definition gadget_decode :: "string \<Rightarrow> exn + pyval" where
  "gadget_decode s =
     (if s = gadget_reply then Inr (PyDict [(''category'', PyStr ''Gadgets'')])
      else Inl JSONDecodeError)"

definition gadget_env :: "nat env" where
  "gadget_env =
     stub_env (Inr [receipt_text]) (\<lambda>request. Inr (nova_response (PyStr gadget_reply))) gadget_decode"




definition widget_json :: string where
  \<open>widget_json = ''{"item_name": "Widget"}''\<close>

definition bare_fenced_reply :: string where
  \<open>bare_fenced_reply = ''```\<newline>'' @ widget_json @ ''\<newline>```''\<close>

definition widget_decode :: "string \<Rightarrow> exn + pyval" where
  "widget_decode s =
     (if s = widget_json then Inr (PyDict [(''item_name'', PyStr ''Widget'')])
      else Inl JSONDecodeError)"

definition bare_fence_env :: "nat env" where
  "bare_fence_env =
     stub_env (Inr [receipt_text]) (\<lambda>request. Inr (nova_response (PyStr bare_fenced_reply)))
       widget_decode"




section \<open>Properties\<close>

subsection \<open>Auxiliary facts\<close>

lemma foldl_append_concat: "foldl (\<lambda>text page. text @ page) acc pages = acc @ concat pages"
  by (induction pages arbitrary: acc) simp_all

lemma extract_text_from_pdf_concat:
  "pdf_page_texts env bs = Inr pages \<Longrightarrow> extract_text_from_pdf env bs = concat pages"
  by (simp add: extract_text_from_pdf_def foldl_append_concat)

lemma fallback_category_enumerated: "category_enumerated create_fallback_response"
  by (simp add: category_enumerated_def create_fallback_response_def categories_def)


subsection \<open>The fallback record\<close>

text \<open>
  C6. The fallback resolver takes no input and returns one fixed record: item name and
  vendor are "Unable to extract", the price is 0, the date is the empty string, the
  model number is null, the description is "Manual entry required" and the category
  is "Other".
\<close>

theorem fallback_record_sentinels:
  "py_getitem create_fallback_response ''item_name'' = Inr (PyStr ''Unable to extract'')
   \<and> py_getitem create_fallback_response ''vendor'' = Inr (PyStr ''Unable to extract'')
   \<and> py_getitem create_fallback_response ''price'' = Inr (PyInt 0)
   \<and> py_getitem create_fallback_response ''date'' = Inr (PyStr '''')
   \<and> py_getitem create_fallback_response ''model_number'' = Inr PyNone
   \<and> py_getitem create_fallback_response ''description'' = Inr (PyStr ''Manual entry required'')
   \<and> py_getitem create_fallback_response ''category'' = Inr (PyStr ''Other'')"
  by (simp add: create_fallback_response_def)

subsection \<open>Unsupported input\<close>

text \<open>
  C3. When the content type is not \<open>application/pdf\<close> and does not start with
  \<open>image/\<close>, and the lower-cased file name ends in none of the recognised extensions,
  the parser returns \<open>success: False\<close>, the error "Unsupported file type: " followed
  by the content type, and the fallback record, and the state is the one it started
  from: no request has been sent to the model.
\<close>

theorem unsupported_type_rejected:
  assumes "content_type \<noteq> ''application/pdf''"
    and "\<not> startswith content_type ''image/''"
    and "\<not> endswith (lower filename) ''.pdf''"
    and "\<not> list_ex (endswith (lower filename)) image_extensions"
  shows "parse_receipt env file_content filename content_type st =
           (\<lparr>success = False, error = Some (''Unsupported file type: '' @ content_type),
             extracted_text = None, data = create_fallback_response\<rparr>, st)"
  using assms
  by (simp add: parse_receipt_def parse_receipt_try_def extract_text_def is_pdf_def is_image_def
        unsupported_result_def)

theorem unsupported_type_rejected_witness:
  "''application/zip'' \<noteq> ''application/pdf''
   \<and> \<not> startswith ''application/zip'' ''image/''
   \<and> \<not> endswith (lower ''Archive.ZIP'') ''.pdf''
   \<and> \<not> list_ex (endswith (lower ''Archive.ZIP'')) image_extensions
   \<and> parse_receipt (stub_env (Inr []) (\<lambda>request. Inr PyNone) reject_all)
         [0x50, 0x4B] ''Archive.ZIP'' ''application/zip'' initial_state =
       (\<lparr>success = False, error = Some ''Unsupported file type: application/zip'',
         extracted_text = None, data = create_fallback_response\<rparr>, initial_state)"
proof -
  have h1: "''application/zip'' \<noteq> ''application/pdf''" by simp
  have h2: "\<not> startswith ''application/zip'' ''image/''" by code_simp
  have h3: "\<not> endswith (lower ''Archive.ZIP'') ''.pdf''" by code_simp
  have h4: "\<not> list_ex (endswith (lower ''Archive.ZIP'')) image_extensions" by code_simp
  show ?thesis
    using h1 h2 h3 h4
      unsupported_type_rejected [OF h1 h2 h3 h4,
        of "stub_env (Inr []) (\<lambda>request. Inr PyNone) reject_all" "[0x50, 0x4B]" initial_state]
    by simp
qed

subsection \<open>Empty extraction\<close>

text \<open>
  C4. When the input is routed to the PDF or the image extraction and the text
  extracted is the empty string, the parser returns \<open>success: False\<close>, the error
  "No text could be extracted from the file" and the fallback record, and its final
  state is the state the extraction left: the structuring request is never sent.
\<close>

theorem empty_text_rejected:
  assumes "extract_text env file_content filename content_type st = Some (PyStr '''', st1)"
  shows "parse_receipt env file_content filename content_type st =
           (\<lparr>success = False, error = Some ''No text could be extracted from the file'',
             extracted_text = None, data = create_fallback_response\<rparr>, st1)"
  using assms
  by (simp add: parse_receipt_def parse_receipt_try_def no_text_result_def)

theorem empty_text_rejected_witness:
  "extract_text (stub_env (Inr []) (\<lambda>request. Inr (nova_response (PyStr ''''))) reject_all)
       [0x89, 0x50, 0x4E] ''scan.png'' ''image/png'' initial_state =
     Some (PyStr '''',
           \<lparr>world = 1,
            requests = [vision_request (stub_env (Inr []) (\<lambda>request. Inr (nova_response (PyStr ''''))) reject_all)
                          [0x89, 0x50, 0x4E] ''image/png'']\<rparr>)
   \<and> parse_receipt (stub_env (Inr []) (\<lambda>request. Inr (nova_response (PyStr ''''))) reject_all)
       [0x89, 0x50, 0x4E] ''scan.png'' ''image/png'' initial_state =
     (\<lparr>success = False, error = Some ''No text could be extracted from the file'',
       extracted_text = None, data = create_fallback_response\<rparr>,
      \<lparr>world = 1,
       requests = [vision_request (stub_env (Inr []) (\<lambda>request. Inr (nova_response (PyStr ''''))) reject_all)
                     [0x89, 0x50, 0x4E] ''image/png'']\<rparr>)"
proof -
  let ?env = "stub_env (Inr []) (\<lambda>request. Inr (nova_response (PyStr ''''))) reject_all"
  have pdf: "\<not> is_pdf ''scan.png'' ''image/png''" by code_simp
  have img: "is_image ''scan.png'' ''image/png''" by code_simp
  have shape: "image_reply_text (Inr (nova_response (PyStr ''''))) = Inr (PyStr '''')" by code_simp
  have h: "extract_text ?env [0x89, 0x50, 0x4E] ''scan.png'' ''image/png'' initial_state =
     Some (PyStr '''',
           \<lparr>world = 1, requests = [vision_request ?env [0x89, 0x50, 0x4E] ''image/png'']\<rparr>)"
    using pdf img shape
    by (simp add: extract_text_def extract_text_from_image_def call_model_def stub_env_def
          initial_state_def)
  show ?thesis
    using h empty_text_rejected [OF h] by simp
qed

subsection \<open>The preview of the extracted text\<close>

lemma text_preview_string:
  "text_preview (PyStr s) = Inr (PyStr (if length s \<le> 500 then s else take 500 s @ ''...''))"
  by (simp add: text_preview_def)

lemma text_preview_string_length:
  assumes "text_preview text = Inr (PyStr p)"
  shows "length p \<le> 503"
  using assms by (cases "text") (auto simp: text_preview_def split: if_splits)

text \<open>
  C7. In every result with \<open>success: True\<close> the preview is made from the text the
  extraction returned: a text of at most 500 characters is kept as it is, a longer one
  is cut to its first 500 characters followed by "..."; a preview that is a string
  has at most 503 characters.
\<close>

theorem preview_truncation:
  assumes "parse_receipt env file_content filename content_type st = (r, st')"
    and "success r"
  shows "\<exists>text st1.
           extract_text env file_content filename content_type st = Some (text, st1)
           \<and> (\<forall>s. text = PyStr s \<longrightarrow>
                  extracted_text r =
                    Some (PyStr (if length s \<le> 500 then s else take 500 s @ ''...'')))
           \<and> (\<forall>p. extracted_text r = Some (PyStr p) \<longrightarrow> length p \<le> 503)"
proof (cases "extract_text env file_content filename content_type st")
  case None
  with assms show ?thesis
    by (auto simp: parse_receipt_def parse_receipt_try_def unsupported_result_def)
next
  case (Some a)
  obtain tx st1 where a: "a = (tx, st1)" by (cases a)
  obtain structured st2 where s: "parse_receipt_text env tx st1 = (structured, st2)"
    by (cases "parse_receipt_text env tx st1")
  from assms Some a s obtain preview where
    p: "text_preview tx = Inr preview" and e: "extracted_text r = Some preview"
    by (auto simp: parse_receipt_def parse_receipt_try_def no_text_result_def
             split: if_splits sum.splits)
  from p e have "\<forall>s. tx = PyStr s \<longrightarrow>
      extracted_text r = Some (PyStr (if length s \<le> 500 then s else take 500 s @ ''...''))"
    by (auto simp: text_preview_string)
  moreover from p e have "\<forall>q. extracted_text r = Some (PyStr q) \<longrightarrow> length q \<le> 503"
    by (auto dest: text_preview_string_length)
  ultimately show ?thesis
    using Some a by blast
qed

theorem preview_truncation_witness:
  "success (fst (parse_receipt (stub_env (Inr [long_text]) (\<lambda>request. Inr PyNone) reject_all)
                   [0x25, 0x50] ''receipt.pdf'' ''application/pdf'' initial_state))
   \<and> extracted_text (fst (parse_receipt (stub_env (Inr [long_text]) (\<lambda>request. Inr PyNone) reject_all)
                   [0x25, 0x50] ''receipt.pdf'' ''application/pdf'' initial_state)) =
       Some (PyStr (replicate 500 (CHR ''x'') @ ''...''))"
proof -
  let ?env = "stub_env (Inr [long_text]) (\<lambda>request. Inr PyNone) reject_all"
  let ?run = "parse_receipt ?env [0x25, 0x50] ''receipt.pdf'' ''application/pdf'' initial_state"
  have pdf: "is_pdf ''receipt.pdf'' ''application/pdf''" by (simp add: is_pdf_def)
  have pages: "extract_text_from_pdf ?env [0x25, 0x50] = long_text"
    by (simp add: extract_text_from_pdf_def stub_env_def)
  have ne: "long_text \<noteq> []" by (simp add: long_text_def)
  have ext: "extract_text ?env [0x25, 0x50] ''receipt.pdf'' ''application/pdf'' initial_state =
      Some (PyStr long_text, initial_state)"
    using pdf pages by (simp add: extract_text_def)
  have ok: "success (fst ?run)"
    using ext ne
    by (simp add: parse_receipt_def parse_receipt_try_def text_preview_string
          split: prod.splits)
  obtain tx st1 where
    "extract_text ?env [0x25, 0x50] ''receipt.pdf'' ''application/pdf'' initial_state = Some (tx, st1)"
    and "\<forall>s. tx = PyStr s \<longrightarrow>
           extracted_text (fst ?run) =
             Some (PyStr (if length s \<le> 500 then s else take 500 s @ ''...''))"
    using preview_truncation [of ?env "[0x25, 0x50]" "''receipt.pdf''" "''application/pdf''"
        initial_state "fst ?run" "snd ?run"] ok
    by auto
  with ext have "extracted_text (fst ?run) =
      Some (PyStr (if length long_text \<le> 500 then long_text else take 500 long_text @ ''...''))"
    by simp
  then show ?thesis
    using ok by (simp add: long_text_def)
qed

subsection \<open>Structuring failures\<close>

lemma structuring_prompt_string:
  "structuring_prompt env (PyStr s) =
     Inr (structuring_prompt_head @ take 3000 s @ structuring_prompt_tail)"
  by (simp add: structuring_prompt_def)

text \<open>
  C5. Let the extraction return a non-empty string, and let the model answer the
  structuring request with a response that either fails the shape test, or holds a
  reply that \<open>json_loads\<close> rejects after the fences are stripped. Then the parser
  returns \<open>success: True\<close> with the preview of the text, and \<open>data\<close> is exactly the
  fallback record.
\<close>

theorem structuring_failure_reports_success:
  assumes "extract_text env file_content filename content_type st = Some (PyStr s, st1)"
    and "s \<noteq> []"
    and "invoke_model env
           (structuring_request (structuring_prompt_head @ take 3000 s @ structuring_prompt_tail))
           (world st1) = (Inr response_body, w)"
    and "has_message response_body \<noteq> Inr True
         \<or> (\<exists>a c. message_text response_body = Inr (PyStr a)
                  \<and> clean_response (PyStr a) = Inr c
                  \<and> json_loads env c = Inl JSONDecodeError)"
  shows "fst (parse_receipt env file_content filename content_type st) =
           \<lparr>success = True, error = None,
            extracted_text = Some (PyStr (if length s \<le> 500 then s else take 500 s @ ''...'')),
            data = create_fallback_response\<rparr>"
proof -
  have "structured_reply env (Inr response_body) = Inr create_fallback_response
        \<or> (\<exists>e. structured_reply env (Inr response_body) = Inl e)"
    using assms(4)
    by (auto simp: structured_reply_def decode_reply_def split: sum.splits bool.splits)
  then have "fst (parse_receipt_text env (PyStr s) st1) = create_fallback_response"
    using assms(3)
    by (auto simp: parse_receipt_text_def parse_receipt_text_try_def structuring_prompt_string
          call_model_def)
  then obtain st2 where
    "parse_receipt_text env (PyStr s) st1 = (create_fallback_response, st2)"
    by (cases "parse_receipt_text env (PyStr s) st1") simp
  then show ?thesis
    using assms(1,2)
    by (simp add: parse_receipt_def parse_receipt_try_def text_preview_string)
qed

theorem structuring_failure_reports_success_witness:
  "message_text (nova_response (PyStr ''not json'')) = Inr (PyStr ''not json'')
   \<and> clean_response (PyStr ''not json'') = Inr ''not json''
   \<and> fst (parse_receipt
            (stub_env (Inr [receipt_text]) (\<lambda>request. Inr (nova_response (PyStr ''not json''))) reject_all)
            [0x25, 0x50] ''receipt.pdf'' ''application/pdf'' initial_state) =
       \<lparr>success = True, error = None, extracted_text = Some (PyStr receipt_text),
        data = create_fallback_response\<rparr>"
proof -
  let ?env = "stub_env (Inr [receipt_text]) (\<lambda>request. Inr (nova_response (PyStr ''not json''))) reject_all"
  have pdf: "is_pdf ''receipt.pdf'' ''application/pdf''" by (simp add: is_pdf_def)
  have pages: "extract_text_from_pdf ?env [0x25, 0x50] = receipt_text"
    by (simp add: extract_text_from_pdf_def stub_env_def)
  have h1: "extract_text ?env [0x25, 0x50] ''receipt.pdf'' ''application/pdf'' initial_state =
      Some (PyStr receipt_text, initial_state)"
    using pdf pages by (simp add: extract_text_def)
  have h2: "receipt_text \<noteq> []" by (simp add: receipt_text_def)
  have h3: "invoke_model ?env
      (structuring_request (structuring_prompt_head @ take 3000 receipt_text @ structuring_prompt_tail))
      (world initial_state) = (Inr (nova_response (PyStr ''not json'')), 1)"
    by (simp add: stub_env_def initial_state_def)
  have m: "message_text (nova_response (PyStr ''not json'')) = Inr (PyStr ''not json'')"
    by code_simp
  have c: "clean_response (PyStr ''not json'') = Inr ''not json''"
    by code_simp
  have d: "json_loads ?env ''not json'' = Inl JSONDecodeError"
    by (simp add: stub_env_def reject_all_def)
  have h4: "has_message (nova_response (PyStr ''not json'')) \<noteq> Inr True
      \<or> (\<exists>a c. message_text (nova_response (PyStr ''not json'')) = Inr (PyStr a)
               \<and> clean_response (PyStr a) = Inr c
               \<and> json_loads ?env c = Inl JSONDecodeError)"
    using m c d by blast
  have len: "length receipt_text \<le> 500" by (simp add: receipt_text_def)
  show ?thesis
    using m c len structuring_failure_reports_success [OF h1 h2 h3 h4] by simp
qed

subsection \<open>A deterministic model\<close>

lemma call_model_result:
  "fst (call_model env request st) = fst (invoke_model env request (world st))"
  by (simp add: call_model_def split: prod.splits)

lemma extract_text_from_image_result:
  "fst (extract_text_from_image env image_bytes mime_type st) =
     (case image_reply_text (fst (invoke_model env (vision_request env image_bytes mime_type) (world st))) of
        Inl e \<Rightarrow> PyStr ''''
      | Inr extracted \<Rightarrow> extracted)"
  by (simp add: extract_text_from_image_def call_model_def split: prod.splits sum.splits)

lemma parse_receipt_text_result:
  "fst (parse_receipt_text env t st) =
     (case structuring_prompt env t of
        Inl e \<Rightarrow> create_fallback_response
      | Inr prompt \<Rightarrow>
          (case structured_reply env (fst (invoke_model env (structuring_request prompt) (world st))) of
             Inl e \<Rightarrow> create_fallback_response
           | Inr structured \<Rightarrow> structured))"
  by (simp add: parse_receipt_text_def parse_receipt_text_try_def call_model_def
        split: prod.splits sum.splits)

lemma parse_receipt_result:
  "fst (parse_receipt env file_content filename content_type st) =
     (case extract_text env file_content filename content_type st of
        None \<Rightarrow> unsupported_result content_type
      | Some (t, st1) \<Rightarrow>
          if \<not> truthy t then no_text_result
          else
            (case text_preview t of
               Inl e \<Rightarrow>
                 \<lparr>success = False, error = Some (exn_str env e),
                  extracted_text = None, data = create_fallback_response\<rparr>
             | Inr preview \<Rightarrow>
                 \<lparr>success = True, error = None, extracted_text = Some preview,
                  data = fst (parse_receipt_text env t st1)\<rparr>))"
  by (simp add: parse_receipt_def parse_receipt_try_def split: option.splits prod.splits sum.splits)

text \<open>
  C9. Let the answer of the model be a function of the request body: whatever the
  state of the outside world, the same request gets the same response. Then two
  invocations of the parser with the same bytes, file name and content type return
  the same result, whatever the states they start from (in particular when the second
  starts where the first ended).
\<close>

theorem deterministic_model_equal_results:
  assumes "\<forall>request w1 w2. fst (invoke_model env request w1) = fst (invoke_model env request w2)"
  shows "fst (parse_receipt env file_content filename content_type st1) =
         fst (parse_receipt env file_content filename content_type st2)"
proof -
  have inv: "fst (invoke_model env request (world a)) = fst (invoke_model env request (world b))"
    for request and a b :: "'a state"
    using assms by blast
  have img: "fst (extract_text_from_image env file_content content_type st1) =
             fst (extract_text_from_image env file_content content_type st2)"
    by (simp only: extract_text_from_image_result inv [of _ st1 st2])
  have str: "fst (parse_receipt_text env t a) = fst (parse_receipt_text env t b)"
    for t and a b :: "'a state"
    by (simp only: parse_receipt_text_result inv [of _ a b])
  show ?thesis
  proof (cases "is_pdf filename content_type")
    case True
    then show ?thesis
      using str by (simp add: parse_receipt_result extract_text_def split: sum.splits)
  next
    case pdf: False
    show ?thesis
    proof (cases "is_image filename content_type")
      case True
      obtain t1 s1 where e1: "extract_text_from_image env file_content content_type st1 = (t1, s1)"
        by (cases "extract_text_from_image env file_content content_type st1")
      obtain t2 s2 where e2: "extract_text_from_image env file_content content_type st2 = (t2, s2)"
        by (cases "extract_text_from_image env file_content content_type st2")
      from img e1 e2 have "t1 = t2" by simp
      then show ?thesis
        using pdf True e1 e2 str [of t2 s1 s2]
        by (simp add: parse_receipt_result extract_text_def split: sum.splits)
    next
      case False
      with pdf show ?thesis
        by (simp add: parse_receipt_result extract_text_def)
    qed
  qed
qed

theorem deterministic_model_equal_results_witness:
  "(\<forall>request w1 w2.
      fst (invoke_model (stub_env (Inr []) (\<lambda>request. Inr (nova_response (PyStr ''Widget''))) reject_all)
             request w1) =
      fst (invoke_model (stub_env (Inr []) (\<lambda>request. Inr (nova_response (PyStr ''Widget''))) reject_all)
             request w2))
   \<and> fst (parse_receipt (stub_env (Inr []) (\<lambda>request. Inr (nova_response (PyStr ''Widget''))) reject_all)
            [0x89, 0x50, 0x4E] ''scan.png'' ''image/png'' \<lparr>world = 0, requests = []\<rparr>) =
     fst (parse_receipt (stub_env (Inr []) (\<lambda>request. Inr (nova_response (PyStr ''Widget''))) reject_all)
            [0x89, 0x50, 0x4E] ''scan.png'' ''image/png'' \<lparr>world = 2, requests = [PyNone, PyNone]\<rparr>)"
proof -
  let ?env = "stub_env (Inr []) (\<lambda>request. Inr (nova_response (PyStr ''Widget''))) reject_all"
  have h: "\<forall>request w1 w2. fst (invoke_model ?env request w1) = fst (invoke_model ?env request w2)"
    by (simp add: stub_env_def)
  show ?thesis
    using h deterministic_model_equal_results [OF h] by blast
qed

subsection \<open>The sentinel of the image extraction\<close>

text \<open>
  C10, as amended. Let the input be routed to the image extraction and let the vision
  model answer with a response body. If the shape test
  \<open>'output' in response_body and 'message' in response_body['output']\<close> evaluates to
  false, the extraction returns the sentinel "Could not extract text from image"; the
  parser hands the sentinel to the structuring stage and returns \<open>success: True\<close>,
  with the sentinel as the preview and what the structuring stage returned as
  \<open>data\<close>. If the shape test raises, the extraction returns the empty string, and the
  parser returns \<open>success: False\<close> with the error "No text could be extracted from
  the file" and the fallback record, without a structuring request.
\<close>

theorem sentinel_treated_as_text:
  assumes "\<not> is_pdf filename content_type"
    and "is_image filename content_type"
    and "invoke_model env (vision_request env file_content content_type) (world st) =
           (Inr response_body, w)"
  shows "(has_message response_body = Inr False \<longrightarrow>
           extract_text_from_image env file_content content_type st =
             (PyStr ''Could not extract text from image'',
              \<lparr>world = w, requests = requests st @ [vision_request env file_content content_type]\<rparr>)
           \<and> parse_receipt env file_content filename content_type st =
             (\<lparr>success = True, error = None,
               extracted_text = Some (PyStr ''Could not extract text from image''),
               data = fst (parse_receipt_text env (PyStr ''Could not extract text from image'')
                        \<lparr>world = w, requests = requests st @ [vision_request env file_content content_type]\<rparr>)\<rparr>,
              snd (parse_receipt_text env (PyStr ''Could not extract text from image'')
                        \<lparr>world = w, requests = requests st @ [vision_request env file_content content_type]\<rparr>)))
         \<and> (\<forall>e. has_message response_body = Inl e \<longrightarrow>
               extract_text_from_image env file_content content_type st =
                 (PyStr '''',
                  \<lparr>world = w, requests = requests st @ [vision_request env file_content content_type]\<rparr>)
               \<and> parse_receipt env file_content filename content_type st =
                 (\<lparr>success = False, error = Some ''No text could be extracted from the file'',
                   extracted_text = None, data = create_fallback_response\<rparr>,
                  \<lparr>world = w, requests = requests st @ [vision_request env file_content content_type]\<rparr>))"
proof -
  let ?st1 = "\<lparr>world = w, requests = requests st @ [vision_request env file_content content_type]\<rparr>"
  have sentinel: "extract_text_from_image env file_content content_type st =
        (PyStr ''Could not extract text from image'', ?st1)
      \<and> parse_receipt env file_content filename content_type st =
        (\<lparr>success = True, error = None,
          extracted_text = Some (PyStr ''Could not extract text from image''),
          data = fst (parse_receipt_text env (PyStr ''Could not extract text from image'') ?st1)\<rparr>,
         snd (parse_receipt_text env (PyStr ''Could not extract text from image'') ?st1))"
    if f: "has_message response_body = Inr False"
  proof -
    have e: "extract_text_from_image env file_content content_type st =
        (PyStr ''Could not extract text from image'', ?st1)"
      using assms(3) f
      by (simp add: extract_text_from_image_def call_model_def image_reply_text_def)
    then have "extract_text env file_content filename content_type st =
        Some (PyStr ''Could not extract text from image'', ?st1)"
      using assms(1,2) by (simp add: extract_text_def)
    then have "parse_receipt env file_content filename content_type st =
        (\<lparr>success = True, error = None,
          extracted_text = Some (PyStr ''Could not extract text from image''),
          data = fst (parse_receipt_text env (PyStr ''Could not extract text from image'') ?st1)\<rparr>,
         snd (parse_receipt_text env (PyStr ''Could not extract text from image'') ?st1))"
      by (simp add: parse_receipt_def parse_receipt_try_def text_preview_string split: prod.splits)
    with e show ?thesis by simp
  qed
  have raises: "extract_text_from_image env file_content content_type st = (PyStr '''', ?st1)
      \<and> parse_receipt env file_content filename content_type st =
        (\<lparr>success = False, error = Some ''No text could be extracted from the file'',
          extracted_text = None, data = create_fallback_response\<rparr>, ?st1)"
    if x: "has_message response_body = Inl e" for e
  proof -
    have e: "extract_text_from_image env file_content content_type st = (PyStr '''', ?st1)"
      using assms(3) x
      by (simp add: extract_text_from_image_def call_model_def image_reply_text_def)
    then have "extract_text env file_content filename content_type st = Some (PyStr '''', ?st1)"
      using assms(1,2) by (simp add: extract_text_def)
    then have "parse_receipt env file_content filename content_type st =
        (\<lparr>success = False, error = Some ''No text could be extracted from the file'',
          extracted_text = None, data = create_fallback_response\<rparr>, ?st1)"
      by (simp add: parse_receipt_def parse_receipt_try_def no_text_result_def)
    with e show ?thesis by simp
  qed
  from sentinel raises show ?thesis by blast
qed

theorem sentinel_treated_as_text_witness:
  "\<not> is_pdf ''scan.png'' ''image/png''
   \<and> is_image ''scan.png'' ''image/png''
   \<and> has_message (PyDict [(''message'', PyStr ''Internal server error'')]) = Inr False
   \<and> fst (parse_receipt
            (stub_env (Inr []) (\<lambda>request. Inr (PyDict [(''message'', PyStr ''Internal server error'')]))
               reject_all)
            [0x89, 0x50, 0x4E] ''scan.png'' ''image/png'' initial_state) =
       \<lparr>success = True, error = None,
        extracted_text = Some (PyStr ''Could not extract text from image''),
        data = create_fallback_response\<rparr>
   \<and> has_message (PyDict [(''output'', PyInt 5)]) = Inl TypeError
   \<and> parse_receipt
         (stub_env (Inr []) (\<lambda>request. Inr (PyDict [(''output'', PyInt 5)])) reject_all)
         [0x89, 0x50, 0x4E] ''scan.png'' ''image/png'' initial_state =
       (\<lparr>success = False, error = Some ''No text could be extracted from the file'',
         extracted_text = None, data = create_fallback_response\<rparr>,
        \<lparr>world = 1,
         requests =
           [vision_request
              (stub_env (Inr []) (\<lambda>request. Inr (PyDict [(''output'', PyInt 5)])) reject_all)
              [0x89, 0x50, 0x4E] ''image/png'']\<rparr>)"
proof -
  let ?body = "PyDict [(''message'', PyStr ''Internal server error'')]"
  let ?env = "stub_env (Inr []) (\<lambda>request. Inr ?body) reject_all"
  let ?body2 = "PyDict [(''output'', PyInt 5)]"
  let ?env2 = "stub_env (Inr []) (\<lambda>request. Inr ?body2) reject_all"
  have h1: "\<not> is_pdf ''scan.png'' ''image/png''" by code_simp
  have h2: "is_image ''scan.png'' ''image/png''" by code_simp
  have h3: "invoke_model ?env (vision_request ?env [0x89, 0x50, 0x4E] ''image/png'') (world initial_state) =
      (Inr ?body, 1)"
    by (simp add: stub_env_def initial_state_def)
  have h4: "has_message ?body = Inr False" by code_simp
  have s: "fst (parse_receipt_text ?env (PyStr ''Could not extract text from image'') st) =
      create_fallback_response" for st
    using h4 by (simp add: parse_receipt_text_result structuring_prompt_string structured_reply_def
        stub_env_def)
  have first: "fst (parse_receipt ?env [0x89, 0x50, 0x4E] ''scan.png'' ''image/png'' initial_state) =
       \<lparr>success = True, error = None,
        extracted_text = Some (PyStr ''Could not extract text from image''),
        data = create_fallback_response\<rparr>"
    using h4 s sentinel_treated_as_text [OF h1 h2 h3] by simp
  have g3: "invoke_model ?env2 (vision_request ?env2 [0x89, 0x50, 0x4E] ''image/png'') (world initial_state) =
      (Inr ?body2, 1)"
    by (simp add: stub_env_def initial_state_def)
  have g4: "has_message ?body2 = Inl TypeError" by code_simp
  have second: "parse_receipt ?env2 [0x89, 0x50, 0x4E] ''scan.png'' ''image/png'' initial_state =
       (\<lparr>success = False, error = Some ''No text could be extracted from the file'',
         extracted_text = None, data = create_fallback_response\<rparr>,
        \<lparr>world = 1, requests = [vision_request ?env2 [0x89, 0x50, 0x4E] ''image/png'']\<rparr>)"
    using g4 sentinel_treated_as_text [OF h1 h2 g3] by (simp add: initial_state_def)
  from h1 h2 h4 first g4 second show ?thesis by simp
qed

text \<open>
  C10 as it was stated fails when the shape test itself raises: on the response
  \<open>{"output": null}\<close> the test \<open>'message' in None\<close> is a type error, the extraction
  returns the empty string, and the parser reports that no text could be extracted.
\<close>

theorem sentinel_counterexample:
  "message_text (PyDict [(''output'', PyNone)]) = Inl TypeError
   \<and> has_message (PyDict [(''output'', PyNone)]) = Inl TypeError
   \<and> is_image ''scan.png'' ''image/png''
   \<and> fst (extract_text_from_image
            (stub_env (Inr []) (\<lambda>request. Inr (PyDict [(''output'', PyNone)])) reject_all)
            [0x89, 0x50, 0x4E] ''image/png'' initial_state) = PyStr ''''
   \<and> fst (parse_receipt
            (stub_env (Inr []) (\<lambda>request. Inr (PyDict [(''output'', PyNone)])) reject_all)
            [0x89, 0x50, 0x4E] ''scan.png'' ''image/png'' initial_state) =
       \<lparr>success = False, error = Some ''No text could be extracted from the file'',
        extracted_text = None, data = create_fallback_response\<rparr>"
proof -
  let ?body = "PyDict [(''output'', PyNone)]"
  let ?env = "stub_env (Inr []) (\<lambda>request. Inr ?body) reject_all"
  have m: "message_text ?body = Inl TypeError" by code_simp
  have h: "has_message ?body = Inl TypeError" by code_simp
  have p: "\<not> is_pdf ''scan.png'' ''image/png''" by code_simp
  have i: "is_image ''scan.png'' ''image/png''" by code_simp
  have e: "fst (extract_text_from_image ?env [0x89, 0x50, 0x4E] ''image/png'' st) = PyStr ''''" for st
    using h by (simp add: extract_text_from_image_result image_reply_text_def stub_env_def)
  obtain st1 where "extract_text_from_image ?env [0x89, 0x50, 0x4E] ''image/png'' initial_state =
      (PyStr '''', st1)"
    using e [of initial_state]
    by (cases "extract_text_from_image ?env [0x89, 0x50, 0x4E] ''image/png'' initial_state") simp
  then have "fst (parse_receipt ?env [0x89, 0x50, 0x4E] ''scan.png'' ''image/png'' initial_state) =
      no_text_result"
    using p i
    by (simp add: parse_receipt_result extract_text_def)
  with m h i e show ?thesis
    by (simp add: no_text_result_def)
qed

subsection \<open>What the data of a result can be\<close>

text \<open>
  The value that the structuring stage returns, when it is not the fallback record, is
  what \<open>json_loads\<close> made of the cleaned reply to the structuring request, and every
  value decoded so is returned.
\<close>

lemma parse_receipt_text_decoded:
  assumes "parse_receipt_text env t st1 = (v, st2)"
  shows "v = create_fallback_response
         \<or> (\<exists>prompt response_body w a c.
               structuring_prompt env t = Inr prompt
               \<and> invoke_model env (structuring_request prompt) (world st1) = (Inr response_body, w)
               \<and> has_message response_body = Inr True
               \<and> message_text response_body = Inr a
               \<and> clean_response a = Inr c
               \<and> json_loads env c = Inr v)"
  using assms
  by (auto simp: parse_receipt_text_def parse_receipt_text_try_def call_model_def
        structured_reply_def decode_reply_def
        split: sum.splits prod.splits bool.splits exn.splits)

lemma parse_receipt_text_returns_decoded:
  assumes "structuring_prompt env t = Inr prompt"
    and "invoke_model env (structuring_request prompt) (world st1) = (Inr response_body, w)"
    and "has_message response_body = Inr True"
    and "message_text response_body = Inr a"
    and "clean_response a = Inr c"
    and "json_loads env c = Inr v"
  shows "fst (parse_receipt_text env t st1) = v"
  using assms
  by (simp add: parse_receipt_text_result structured_reply_def decode_reply_def)

text \<open>
  C1, as amended. In every result of the parser \<open>data\<close> is either the fallback
  record, whose category is "Other" and so one of the nine labels, or, and then
  \<open>success\<close> is true, the value that \<open>json_loads\<close> decoded from the cleaned reply of
  the model to the structuring request made from the extracted text. Whatever value
  is decoded from that reply is the \<open>data\<close> of a successful result, as it is: no
  category is checked. A result with \<open>success: False\<close> always carries the fallback
  record. For a PDF whose pages hold some text the result has \<open>success: True\<close>.
\<close>

theorem data_fallback_or_decoded:
  assumes "parse_receipt env file_content filename content_type st = (r, st')"
  shows "((data r = create_fallback_response \<and> category_enumerated (data r))
          \<or> (success r
              \<and> (\<exists>t st1 prompt response_body w a c.
                    extract_text env file_content filename content_type st = Some (t, st1)
                    \<and> structuring_prompt env t = Inr prompt
                    \<and> invoke_model env (structuring_request prompt) (world st1) = (Inr response_body, w)
                    \<and> has_message response_body = Inr True
                    \<and> message_text response_body = Inr a
                    \<and> clean_response a = Inr c
                    \<and> json_loads env c = Inr (data r))))
         \<and> (\<forall>t st1 prompt response_body w a c v.
                success r
                \<and> extract_text env file_content filename content_type st = Some (t, st1)
                \<and> structuring_prompt env t = Inr prompt
                \<and> invoke_model env (structuring_request prompt) (world st1) = (Inr response_body, w)
                \<and> has_message response_body = Inr True
                \<and> message_text response_body = Inr a
                \<and> clean_response a = Inr c
                \<and> json_loads env c = Inr v
                \<longrightarrow> data r = v)
         \<and> (\<not> success r \<longrightarrow> data r = create_fallback_response)
         \<and> (is_pdf filename content_type \<longrightarrow>
              (\<forall>pages. pdf_page_texts env file_content = Inr pages \<longrightarrow> concat pages \<noteq> [] \<longrightarrow>
                 success r))"
proof -
  have r: "r = fst (parse_receipt env file_content filename content_type st)"
    using assms by simp
  have a: "(data r = create_fallback_response \<and> category_enumerated (data r))
        \<or> (success r
            \<and> (\<exists>t st1 prompt response_body w a c.
                  extract_text env file_content filename content_type st = Some (t, st1)
                  \<and> structuring_prompt env t = Inr prompt
                  \<and> invoke_model env (structuring_request prompt) (world st1) = (Inr response_body, w)
                  \<and> has_message response_body = Inr True
                  \<and> message_text response_body = Inr a
                  \<and> clean_response a = Inr c
                  \<and> json_loads env c = Inr (data r)))"
  proof (cases "extract_text env file_content filename content_type st")
    case None
    then show ?thesis
      by (simp add: r parse_receipt_result unsupported_result_def fallback_category_enumerated)
  next
    case (Some x)
    obtain t st1 where x: "x = (t, st1)" by (cases x)
    obtain v st2 where v: "parse_receipt_text env t st1 = (v, st2)"
      by (cases "parse_receipt_text env t st1")
    show ?thesis
    proof (cases "truthy t \<and> (\<exists>p. text_preview t = Inr p)")
      case False
      then show ?thesis
        using Some x
        by (auto simp: r parse_receipt_result no_text_result_def fallback_category_enumerated
              split: sum.splits)
    next
      case True
      then obtain p where p: "text_preview t = Inr p" and tr: "truthy t" by blast
      have res: "success r" "data r = v"
        using Some x v p tr by (simp_all add: r parse_receipt_result)
      from parse_receipt_text_decoded [OF v] show ?thesis
      proof
        assume "v = create_fallback_response"
        then show ?thesis
          using res by (simp add: fallback_category_enumerated)
      next
        assume "\<exists>prompt response_body w a c.
               structuring_prompt env t = Inr prompt
               \<and> invoke_model env (structuring_request prompt) (world st1) = (Inr response_body, w)
               \<and> has_message response_body = Inr True
               \<and> message_text response_body = Inr a
               \<and> clean_response a = Inr c
               \<and> json_loads env c = Inr v"
        then show ?thesis
          using res Some x by blast
      qed
    qed
  qed
  have b: "data r = v"
    if "success r" and "extract_text env file_content filename content_type st = Some (t, st1)"
      and "structuring_prompt env t = Inr prompt"
      and "invoke_model env (structuring_request prompt) (world st1) = (Inr response_body, w)"
      and "has_message response_body = Inr True"
      and "message_text response_body = Inr a"
      and "clean_response a = Inr c"
      and "json_loads env c = Inr v"
    for t st1 prompt response_body w a c v
  proof -
    have "fst (parse_receipt_text env t st1) = v"
      using that(3-8) by (rule parse_receipt_text_returns_decoded)
    then show ?thesis
      using that(1,2)
      by (auto simp: r parse_receipt_result no_text_result_def split: sum.splits if_splits)
  qed
  have c: "\<not> success r \<longrightarrow> data r = create_fallback_response"
    by (auto simp: r parse_receipt_result unsupported_result_def no_text_result_def
          split: option.splits sum.splits if_splits)
  have d: "success r"
    if "is_pdf filename content_type" and "pdf_page_texts env file_content = Inr pages"
      and "concat pages \<noteq> []" for pages
    using that
    by (simp add: r parse_receipt_result extract_text_def extract_text_from_pdf_concat
          text_preview_string)
  from a b c d show ?thesis by blast
qed

lemma gadget_run:
  "fst (parse_receipt gadget_env [0x25, 0x50] ''receipt.pdf'' ''application/pdf'' initial_state) =
     \<lparr>success = True, error = None, extracted_text = Some (PyStr receipt_text),
      data = PyDict [(''category'', PyStr ''Gadgets'')]\<rparr>"
proof -
  have pdf: "is_pdf ''receipt.pdf'' ''application/pdf''" by (simp add: is_pdf_def)
  have pages: "extract_text_from_pdf gadget_env [0x25, 0x50] = receipt_text"
    by (simp add: extract_text_from_pdf_def gadget_env_def stub_env_def)
  have ne: "receipt_text \<noteq> []" and len: "length receipt_text \<le> 500"
    by (simp_all add: receipt_text_def)
  have clean: "clean_response (PyStr gadget_reply) = Inr gadget_reply"
    unfolding gadget_reply_def by code_simp
  have reply: "structured_reply gadget_env (Inr (nova_response (PyStr gadget_reply))) =
      Inr (PyDict [(''category'', PyStr ''Gadgets'')])"
  proof -
    have "has_message (nova_response (PyStr gadget_reply)) = Inr True"
      by (simp add: has_message_def nova_response_def)
    moreover have "message_text (nova_response (PyStr gadget_reply)) = Inr (PyStr gadget_reply)"
      by (simp add: message_text_def nova_response_def)
    ultimately show ?thesis
      using clean
      by (simp add: structured_reply_def decode_reply_def gadget_env_def stub_env_def
            gadget_decode_def)
  qed
  have "fst (parse_receipt_text gadget_env (PyStr receipt_text) st) =
      PyDict [(''category'', PyStr ''Gadgets'')]" for st
    using reply
    by (simp add: parse_receipt_text_result structuring_prompt_string)
      (simp add: gadget_env_def stub_env_def)
  then show ?thesis
    using pdf pages ne len
    by (simp add: parse_receipt_result extract_text_def text_preview_string)
qed

theorem data_fallback_or_decoded_witness:
  "pdf_page_texts gadget_env [0x25, 0x50] = Inr [receipt_text]
   \<and> message_text (nova_response (PyStr gadget_reply)) = Inr (PyStr gadget_reply)
   \<and> clean_response (PyStr gadget_reply) = Inr gadget_reply
   \<and> json_loads gadget_env gadget_reply = Inr (PyDict [(''category'', PyStr ''Gadgets'')])
   \<and> success (fst (parse_receipt gadget_env [0x25, 0x50] ''receipt.pdf'' ''application/pdf''
                     initial_state))
   \<and> data (fst (parse_receipt gadget_env [0x25, 0x50] ''receipt.pdf'' ''application/pdf''
                  initial_state)) = PyDict [(''category'', PyStr ''Gadgets'')]"
proof -
  let ?run = "parse_receipt gadget_env [0x25, 0x50] ''receipt.pdf'' ''application/pdf'' initial_state"
  let ?prompt = "structuring_prompt_head @ take 3000 receipt_text @ structuring_prompt_tail"
  have h: "?run = (fst ?run, snd ?run)" by simp
  have p: "pdf_page_texts gadget_env [0x25, 0x50] = Inr [receipt_text]"
    by (simp add: gadget_env_def stub_env_def)
  have ne: "concat [receipt_text] \<noteq> []" by (simp add: receipt_text_def)
  have pdf: "is_pdf ''receipt.pdf'' ''application/pdf''" by (simp add: is_pdf_def)
  have ok: "success (fst ?run)"
    using data_fallback_or_decoded [OF h] p ne pdf by blast
  have e: "extract_text gadget_env [0x25, 0x50] ''receipt.pdf'' ''application/pdf'' initial_state =
      Some (PyStr receipt_text, initial_state)"
    using pdf p by (simp add: extract_text_def extract_text_from_pdf_concat)
  have q: "structuring_prompt gadget_env (PyStr receipt_text) = Inr ?prompt"
    by (rule structuring_prompt_string)
  have i: "invoke_model gadget_env (structuring_request ?prompt) (world initial_state) =
      (Inr (nova_response (PyStr gadget_reply)), 1)"
    by (simp add: gadget_env_def stub_env_def initial_state_def)
  have s: "has_message (nova_response (PyStr gadget_reply)) = Inr True"
    by (simp add: has_message_def nova_response_def)
  have m: "message_text (nova_response (PyStr gadget_reply)) = Inr (PyStr gadget_reply)"
    by (simp add: message_text_def nova_response_def)
  have c: "clean_response (PyStr gadget_reply) = Inr gadget_reply"
    unfolding gadget_reply_def by code_simp
  have j: "json_loads gadget_env gadget_reply = Inr (PyDict [(''category'', PyStr ''Gadgets'')])"
    by (simp add: gadget_env_def stub_env_def gadget_decode_def)
  have "data (fst ?run) = PyDict [(''category'', PyStr ''Gadgets'')]"
    using data_fallback_or_decoded [OF h] ok e q i s m c j by blast
  with p m c j ok show ?thesis by simp
qed

text \<open>
  C1 as it was stated fails: for a PDF with text, when the model replies
  \<open>{"category": "Gadgets"}\<close>, the result has \<open>success: True\<close> and its category is
  "Gadgets".
\<close>

theorem category_counterexample:
  "success (fst (parse_receipt gadget_env [0x25, 0x50] ''receipt.pdf'' ''application/pdf'' initial_state))
   \<and> py_getitem
        (data (fst (parse_receipt gadget_env [0x25, 0x50] ''receipt.pdf'' ''application/pdf''
                      initial_state)))
        ''category'' = Inr (PyStr ''Gadgets'')
   \<and> \<not> category_enumerated
        (data (fst (parse_receipt gadget_env [0x25, 0x50] ''receipt.pdf'' ''application/pdf''
                      initial_state)))"
  by (simp add: gadget_run category_enumerated_def categories_def)

subsection \<open>Exceptions at the boundary of the orchestrator\<close>

lemma parse_receipt_try_raises:
  assumes "parse_receipt_try env file_content filename content_type st = (Inl e, st')"
  shows "\<exists>t st1. extract_text env file_content filename content_type st = Some (t, st1)
           \<and> truthy t \<and> text_preview t = Inl e"
  using assms
  by (auto simp: parse_receipt_try_def split: option.splits prod.splits if_splits sum.splits)





subsection \<open>Code fences around the reply\<close>

lemma dropWhile_spaces_append:
  "list_all is_space ws \<Longrightarrow> dropWhile is_space (ws @ ys) = dropWhile is_space ys"
  by (induction ws) simp_all

lemma strip_wrapped:
  assumes "list_all is_space ws1" and "list_all is_space ws2"
    and "m \<noteq> []" and "\<not> is_space (hd m)" and "\<not> is_space (last m)"
  shows "strip (ws1 @ m @ ws2) = m"
proof -
  have 1: "dropWhile is_space (ws1 @ m @ ws2) = m @ ws2"
    using assms(1,3,4) by (cases m) (simp_all add: dropWhile_spaces_append)
  have "list_all is_space (rev ws2)"
    using assms(2) by (simp add: list_all_iff)
  then have "dropWhile is_space (rev ws2 @ rev m) = dropWhile is_space (rev m)"
    by (rule dropWhile_spaces_append)
  also have "\<dots> = rev m"
    using assms(3,5) by (cases m rule: rev_cases) simp_all
  finally show ?thesis
    by (simp add: strip_def 1)
qed

text \<open>
  What the cleaning does strip: a leading \<^verbatim>\<open>```json\<close> and a trailing \<^verbatim>\<open>```\<close>, each
  present or not, with white space anywhere around them, leave the text of a JSON
  object as it is.
\<close>

lemma json_fences_stripped:
  assumes "body \<noteq> []" and "hd body = CHR ''{''" and "last body = CHR ''}''"
    and "list_all is_space ws1" and "list_all is_space ws2"
    and "list_all is_space ws3" and "list_all is_space ws4"
  shows \<open>clean_response
           (PyStr (ws1 @ (if leading then ''```json'' else []) @ ws2 @ body @ ws3
                     @ (if trailing then ''```'' else []) @ ws4)) = Inr body\<close>
proof -
  have tick: "\<not> is_space (CHR 0x60)" and open_brace: "\<not> is_space (CHR ''{'')"
    and close_brace: "\<not> is_space (CHR ''}'')"
    by (simp_all add: is_space_def)
  have hb: "\<not> is_space (hd body)" and lb: "\<not> is_space (last body)"
    using assms(2,3) open_brace close_brace by simp_all
  obtain b bs where body: "body = b # bs" and b: "b = CHR ''{''"
    using assms(1,2) by (cases body) auto
  have inner: "strip (ws2 @ body @ ws3) = body"
    using assms(1,5,6) hb lb by (rule_tac strip_wrapped) simp_all
  have no_tail_fence: "\<not> endswith (xs @ body @ ws3) ''```''" for xs
  proof (cases ws3 rule: rev_cases)
    case Nil
    then show ?thesis
      using assms(1,3) by (cases body rule: rev_cases) (auto simp: endswith_def)
  next
    case (snoc ys y)
    with assms(6) have "is_space y" by simp
    with tick have "y \<noteq> CHR 0x60" by auto
    with snoc show ?thesis
      by (auto simp: endswith_def)
  qed
  show ?thesis
  proof (cases leading)
    case lead: True
    show ?thesis
    proof (cases trailing)
      case True
      let ?m = \<open>''```json'' @ ws2 @ body @ ws3 @ ''```''\<close>
      have "strip (ws1 @ ?m @ ws4) = ?m"
        using assms(4,7) tick by (rule_tac strip_wrapped) simp_all
      then have c0: \<open>strip (ws1 @ ''```json'' @ ws2 @ body @ ws3 @ ''```'' @ ws4) = ?m\<close>
        by simp
      have c2: \<open>endswith ((ws2 @ body @ ws3) @ ''```'') ''```''\<close>
        unfolding endswith_def by simp
      show ?thesis
        using lead True c0 c2 inner
        by (simp add: clean_response_def startswith_def Let_def)
    next
      case False
      let ?m = \<open>''```json'' @ ws2 @ body\<close>
      have "strip (ws1 @ ?m @ (ws3 @ ws4)) = ?m"
        using assms(1,4,6,7) tick lb by (rule_tac strip_wrapped) simp_all
      then have c0: \<open>strip (ws1 @ ''```json'' @ ws2 @ body @ ws3 @ ws4) = ?m\<close>
        by simp
      have c2: \<open>\<not> endswith (ws2 @ body) ''```''\<close>
        using no_tail_fence [of ws2] assms(1,3)
        by (cases body rule: rev_cases) (auto simp: endswith_def)
      have "strip (ws2 @ body @ []) = body"
        using assms(1,5) hb lb by (rule_tac strip_wrapped) simp_all
      then show ?thesis
        using lead False c0 c2
        by (simp add: clean_response_def startswith_def Let_def)
    qed
  next
    case nolead: False
    show ?thesis
    proof (cases trailing)
      case True
      let ?m = \<open>body @ ws3 @ ''```''\<close>
      have "strip ((ws1 @ ws2) @ ?m @ ws4) = ?m"
        using assms(1,4,5,7) tick hb by (rule_tac strip_wrapped) simp_all
      then have c0: \<open>strip (ws1 @ ws2 @ body @ ws3 @ ''```'' @ ws4) = ?m\<close>
        by simp
      have c1: \<open>\<not> startswith ?m ''```json''\<close>
        using body b by (simp add: startswith_def)
      have c2: \<open>endswith ((body @ ws3) @ ''```'') ''```''\<close>
        unfolding endswith_def by simp
      have "strip ([] @ body @ ws3) = body"
        using assms(1,6) hb lb by (rule_tac strip_wrapped) simp_all
      then show ?thesis
        using nolead True c0 c1 c2
        by (simp add: clean_response_def Let_def)
    next
      case False
      have "strip ((ws1 @ ws2) @ body @ (ws3 @ ws4)) = body"
        using assms(1,4,5,6,7) hb lb by (rule_tac strip_wrapped) simp_all
      then have c0: "strip (ws1 @ ws2 @ body @ ws3 @ ws4) = body"
        by simp
      have c1: \<open>\<not> startswith body ''```json''\<close>
        using body b by (simp add: startswith_def)
      have c2: \<open>\<not> endswith body ''```''\<close>
        using assms(1,3) by (cases body rule: rev_cases) (auto simp: endswith_def)
      have "strip ([] @ body @ []) = body"
        using assms(1) hb lb by (rule_tac strip_wrapped) simp_all
      then show ?thesis
        using nolead False c0 c1 c2
        by (simp add: clean_response_def Let_def)
    qed
  qed
qed

text \<open>
  C8. A JSON object wrapped in code-fence markers is to be unwrapped and decoded. The
  code drops a leading fence only when it is \<^verbatim>\<open>```json\<close>. On a reply
  wrapped in bare fences it drops the trailing fence and keeps the leading one, so the
  text handed to the decoder is not JSON and the structuring stage returns the
  fallback record, although the JSON inside the fences decodes.
\<close>

theorem bare_fence_routed_to_fallback:
  \<open>clean_response (PyStr bare_fenced_reply) = Inr (''```\<newline>'' @ widget_json)
   \<and> json_loads bare_fence_env widget_json = Inr (PyDict [(''item_name'', PyStr ''Widget'')])
   \<and> fst (parse_receipt_text bare_fence_env (PyStr receipt_text) initial_state) =
       create_fallback_response\<close>
proof -
  have clean: \<open>clean_response (PyStr bare_fenced_reply) = Inr (''```\<newline>'' @ widget_json)\<close>
    unfolding bare_fenced_reply_def widget_json_def by code_simp
  have differ: \<open>''```\<newline>'' @ widget_json \<noteq> widget_json\<close>
    by (simp add: widget_json_def)
  have shape: "has_message (nova_response (PyStr bare_fenced_reply)) = Inr True"
    by (simp add: has_message_def nova_response_def)
  have reply: "message_text (nova_response (PyStr bare_fenced_reply)) = Inr (PyStr bare_fenced_reply)"
    by (simp add: message_text_def nova_response_def)
  have "structured_reply bare_fence_env (Inr (nova_response (PyStr bare_fenced_reply))) =
      Inr create_fallback_response"
    using shape reply clean differ
    by (simp add: structured_reply_def decode_reply_def bare_fence_env_def stub_env_def
          widget_decode_def)
  then have "fst (parse_receipt_text bare_fence_env (PyStr receipt_text) initial_state) =
      create_fallback_response"
    by (simp add: parse_receipt_text_result structuring_prompt_string)
      (simp add: bare_fence_env_def stub_env_def)
  moreover have "json_loads bare_fence_env widget_json = Inr (PyDict [(''item_name'', PyStr ''Widget'')])"
    by (simp add: bare_fence_env_def stub_env_def widget_decode_def)
  ultimately show ?thesis
    using clean by simp
qed

end
